theory Spec2Isabelle
  imports Complex_Main
begin

section \<open>The Transnet tender ingestion job\<close>

text \<open>
  A shallow embedding of \<^verbatim>\<open>models.py\<close> (the classes \<^verbatim>\<open>SupportingDoc\<close>,
  \<^verbatim>\<open>TenderBase\<close>, \<^verbatim>\<open>TransnetTender\<close>) and of \<^verbatim>\<open>lambda_function.py\<close>
  (the handler \<^verbatim>\<open>lambda_handler\<close>: fetch, per-item normalisation, batching by ten,
  dispatch to the queue, run summary).

  Conventions of the embedding:
  \<^item> a value decoded from JSON is a \<open>jval\<close>; a Python \<^verbatim>\<open>dict\<close> is an association list
    read with \<open>map_of\<close> (one binding per key);
  \<^item> a Python exception is a value \<open>Inl e\<close> of a sum type, a normal return is \<open>Inr v\<close>;
  \<^item> every call of the logging module appends one \<open>log_record\<close> to the log that the
    function returns beside its result, the interpolated values being the arguments of
    the record;
  \<^item> the collaborators outside the repository are parameters: the date parser
    \<^verbatim>\<open>datetime.strptime\<close>, the outcome of the HTTP fetch, and the queue client's
    \<^verbatim>\<open>send_message_batch\<close>, which threads a queue state of any type;
  \<^item> a Python \<^verbatim>\<open>str\<close> is the list of its code points (\<open>pystr\<close>), and \<open>lit\<close> gives the
    \<^verbatim>\<open>str\<close> of a literal of the source; the keys of a dict, which the code only compares
    with its own literals, stay Isabelle strings;
  \<^item> the Unicode character tables that the methods of \<^verbatim>\<open>str\<close> consult are a parameter
    \<open>U\<close>, as they belong to the Python runtime and not to the repository.
\<close>

subsection \<open>Values, exceptions\<close>

type_synonym pystr = "nat list"

definition lit :: "string \<Rightarrow> pystr" where
  "lit s = map (of_char :: char \<Rightarrow> nat) s"

datatype jval =
    JNull
  | JBool bool
  | JNum rat
  | JStr pystr
  | JArr "jval list"
  | JObj "(string \<times> jval) list"

type_synonym pydict = "(string \<times> jval) list"

datatype pyexn = AttributeError | TypeError | ValueError | KeyError | ClientError

text \<open>Python truthiness, as \<^verbatim>\<open>if x:\<close> and \<^verbatim>\<open>not x\<close> test it on a decoded JSON value.\<close>

fun truthy :: "jval \<Rightarrow> bool" where
  "truthy JNull = False"
| "truthy (JBool b) = b"
| "truthy (JNum n) = (n \<noteq> 0)"
| "truthy (JStr s) = (s \<noteq> [])"
| "truthy (JArr xs) = (xs \<noteq> [])"
| "truthy (JObj d) = (d \<noteq> [])"

text \<open>\<^verbatim>\<open>d.get(k)\<close> and \<^verbatim>\<open>d.get(k, default)\<close> on a dict.\<close>

definition dict_get :: "pydict \<Rightarrow> string \<Rightarrow> jval" where
  "dict_get d k = (case map_of d k of None \<Rightarrow> JNull | Some v \<Rightarrow> v)"

definition dict_get_default :: "pydict \<Rightarrow> string \<Rightarrow> jval \<Rightarrow> jval" where
  "dict_get_default d k dflt = (case map_of d k of None \<Rightarrow> dflt | Some v \<Rightarrow> v)"

text \<open>
  \<^verbatim>\<open>x.get(k)\<close> on any decoded value: only a dict has the method, every other value
  raises \<^verbatim>\<open>AttributeError\<close>.
\<close>

definition py_get :: "jval \<Rightarrow> string \<Rightarrow> pyexn + jval" where
  "py_get x k = (case x of JObj d \<Rightarrow> Inr (dict_get d k) | _ \<Rightarrow> Inl AttributeError)"

definition py_get_default :: "jval \<Rightarrow> string \<Rightarrow> jval \<Rightarrow> pyexn + jval" where
  "py_get_default x k dflt =
     (case x of JObj d \<Rightarrow> Inr (dict_get_default d k dflt) | _ \<Rightarrow> Inl AttributeError)"

subsection \<open>The string methods the factory uses\<close>

text \<open>
  The methods follow CPython's \<^verbatim>\<open>unicodeobject.c\<close>. They read the Unicode character
  database through six functions, named here after the functions of CPython
  (\<^verbatim>\<open>_PyUnicode_IsWhitespace\<close>, \<^verbatim>\<open>_PyUnicode_IsCased\<close>, \<^verbatim>\<open>_PyUnicode_IsCaseIgnorable\<close>,
  \<^verbatim>\<open>_PyUnicode_ToUpperFull\<close>, \<^verbatim>\<open>_PyUnicode_ToLowerFull\<close>, \<^verbatim>\<open>_PyUnicode_ToTitleFull\<close>); a
  full case mapping gives one to three code points.
\<close>

record unicode_tables =
  is_whitespace :: "nat \<Rightarrow> bool"
  is_cased :: "nat \<Rightarrow> bool"
  is_case_ignorable :: "nat \<Rightarrow> bool"
  to_upper_full :: "nat \<Rightarrow> pystr"
  to_lower_full :: "nat \<Rightarrow> pystr"
  to_title_full :: "nat \<Rightarrow> pystr"

text \<open>\<^verbatim>\<open>s.replace(old, new)\<close> for a pattern \<open>old\<close> of one character.\<close>

definition str_replace :: "nat \<Rightarrow> pystr \<Rightarrow> pystr \<Rightarrow> pystr" where
  "str_replace old new s = concat (map (\<lambda>c. if c = old then new else [c]) s)"

text \<open>\<^verbatim>\<open>s.strip()\<close> removes the white space at both ends.\<close>

definition str_strip :: "unicode_tables \<Rightarrow> pystr \<Rightarrow> pystr" where
  "str_strip U s = rev (dropWhile (is_whitespace U) (rev (dropWhile (is_whitespace U) s)))"

text \<open>\<^verbatim>\<open>s.upper()\<close> joins the full upper-case mappings of the characters.\<close>

definition str_upper :: "unicode_tables \<Rightarrow> pystr \<Rightarrow> pystr" where
  "str_upper U s = concat (map (to_upper_full U) s)"

text \<open>
  Lowering one character (\<^verbatim>\<open>lower_ucs4\<close>): the capital sigma U+03A3 becomes the final
  sigma U+03C2 when a cased character precedes it, case-ignorable characters skipped,
  and no cased character follows it, case-ignorable characters skipped
  (\<^verbatim>\<open>handle_capital_sigma\<close>); it becomes U+03C3 otherwise. The characters before the
  position are given nearest first.
\<close>

definition final_sigma :: "unicode_tables \<Rightarrow> pystr \<Rightarrow> pystr \<Rightarrow> bool" where
  "final_sigma U before after =
     (case dropWhile (is_case_ignorable U) before of
        [] \<Rightarrow> False
      | c # _ \<Rightarrow>
          is_cased U c \<and>
          (case dropWhile (is_case_ignorable U) after of
             [] \<Rightarrow> True
           | c' # _ \<Rightarrow> \<not> is_cased U c'))"

definition lower_ucs4 :: "unicode_tables \<Rightarrow> pystr \<Rightarrow> nat \<Rightarrow> pystr \<Rightarrow> pystr" where
  "lower_ucs4 U before c after =
     (if c = 0x3A3 then [if final_sigma U before after then 0x3C2 else 0x3C3]
      else to_lower_full U c)"

fun do_lower :: "unicode_tables \<Rightarrow> pystr \<Rightarrow> pystr \<Rightarrow> pystr" where
  "do_lower U before [] = []"
| "do_lower U before (c # cs) = lower_ucs4 U before c cs @ do_lower U (c # before) cs"

definition str_lower :: "unicode_tables \<Rightarrow> pystr \<Rightarrow> pystr" where
  "str_lower U s = do_lower U [] s"

text \<open>
  \<^verbatim>\<open>s.title()\<close> (\<^verbatim>\<open>do_title\<close>): a character that follows a cased character is lowered,
  any other character gets its title-case mapping; the flag is whether the previous
  character of the input is cased.
\<close>

fun do_title :: "unicode_tables \<Rightarrow> bool \<Rightarrow> pystr \<Rightarrow> pystr \<Rightarrow> pystr" where
  "do_title U previous_is_cased before [] = []"
| "do_title U previous_is_cased before (c # cs) =
     (if previous_is_cased then lower_ucs4 U before c cs else to_title_full U c) @
     do_title U (is_cased U c) (c # before) cs"

definition str_title :: "unicode_tables \<Rightarrow> pystr \<Rightarrow> pystr" where
  "str_title U s = do_title U False [] s"

text \<open>\<^verbatim>\<open>str(n)\<close> for a natural number, and \<^verbatim>\<open>s.zfill(w)\<close> on a string of digits.\<close>

fun str_nat :: "nat \<Rightarrow> pystr" where
  "str_nat n = (if n < 10 then [48 + n] else str_nat (n div 10) @ [48 + n mod 10])"

definition zfill :: "nat \<Rightarrow> pystr \<Rightarrow> pystr" where
  "zfill w s = replicate (w - length s) 48 @ s"

subsection \<open>Exceptions as values\<close>

definition ebind :: "'e + 'a \<Rightarrow> ('a \<Rightarrow> 'e + 'b) \<Rightarrow> 'e + 'b" where
  "ebind m f = (case m of Inl e \<Rightarrow> Inl e | Inr v \<Rightarrow> f v)"

subsection \<open>The data model (models.py)\<close>

record datetime =
  year :: nat
  month :: nat
  day :: nat
  hour :: nat
  minute :: nat
  second :: nat

text \<open>
  \<^verbatim>\<open>datetime.strptime(s, fmt)\<close> belongs to the Python library. On a \<^verbatim>\<open>str\<close> it returns a
  timestamp or raises \<^verbatim>\<open>ValueError\<close>: the parameter \<open>P\<close> gives the timestamp, \<open>None\<close>
  standing for the \<^verbatim>\<open>ValueError\<close>. On any other value it raises \<^verbatim>\<open>TypeError\<close>.
\<close>

type_synonym strptime = "pystr \<Rightarrow> pystr \<Rightarrow> datetime option"

definition datetime_strptime :: "strptime \<Rightarrow> jval \<Rightarrow> pystr \<Rightarrow> pyexn + datetime" where
  "datetime_strptime P v fmt =
     (case v of
        JStr s \<Rightarrow> (case P s fmt of None \<Rightarrow> Inl ValueError | Some d \<Rightarrow> Inr d)
      | _ \<Rightarrow> Inl TypeError)"

text \<open>\<^verbatim>\<open>d.isoformat()\<close> for a timestamp without microseconds.\<close>

definition isoformat :: "datetime \<Rightarrow> pystr" where
  "isoformat d =
     zfill 4 (str_nat (year d)) @ lit ''-'' @ zfill 2 (str_nat (month d)) @ lit ''-'' @
     zfill 2 (str_nat (day d)) @ lit ''T'' @ zfill 2 (str_nat (hour d)) @ lit '':'' @
     zfill 2 (str_nat (minute d)) @ lit '':'' @ zfill 2 (str_nat (second d))"

record SupportingDoc =
  name :: pystr
  url :: jval

record TransnetTender =
  title :: pystr
  description :: pystr
  source :: pystr
  published_date :: "datetime option"
  closing_date :: "datetime option"
  supporting_docs :: "SupportingDoc list"
  tags :: "jval list"
  tender_number :: pystr
  institution :: pystr
  category :: pystr
  tender_type :: pystr
  location :: pystr
  email :: pystr
  contact_person :: pystr

text \<open>One constructor for each call of the logging module, with the values it interpolates.\<close>

datatype log_record =
    InfoStarting
  | InfoFetching
  | InfoFetched nat
  | ErrorFetchFailed
  | ErrorInvalidJson
  | WarningSkippingTender jval pyexn
  | InfoProcessed nat
  | WarningSkippedTotal nat
  | InfoBatchSent nat
  | ErrorBatchSomeFailed "jval list"
  | ErrorBatchSendFailed pyexn
  | InfoComplete nat
  | WarningInvalidPublishedDate jval jval
  | WarningInvalidClosingDate jval jval

subsection \<open>The factory \<^verbatim>\<open>TransnetTender.from_api_response\<close> (models.py, lines 149--212)\<close>

definition date_format :: pystr where
  "date_format = lit ''%m/%d/%Y %I:%M:%S %p''"

text \<open>
  The two \<^verbatim>\<open>try\<close> blocks of lines 178--191. The handler
  \<^verbatim>\<open>except (TypeError, ValueError)\<close> logs a warning and leaves the date \<^verbatim>\<open>None\<close>; any
  other exception would leave the factory.
\<close>

definition parse_published_date ::
  "strptime \<Rightarrow> pydict \<Rightarrow> jval \<Rightarrow> log_record list \<times> (pyexn + datetime option)" where
  "parse_published_date P response_item tender_id =
     (let pub_date_str = dict_get response_item ''publishedDate'' in
      if truthy pub_date_str then
        (case datetime_strptime P pub_date_str date_format of
           Inr pub_date \<Rightarrow> ([], Inr (Some pub_date))
         | Inl e \<Rightarrow>
             if e = TypeError \<or> e = ValueError then
               ([WarningInvalidPublishedDate tender_id (dict_get response_item ''publishedDate'')],
                Inr None)
             else ([], Inl e))
      else ([], Inr None))"

definition parse_closing_date ::
  "strptime \<Rightarrow> pydict \<Rightarrow> jval \<Rightarrow> log_record list \<times> (pyexn + datetime option)" where
  "parse_closing_date P response_item tender_id =
     (let close_date_str = dict_get response_item ''closingDate'' in
      if truthy close_date_str then
        (case datetime_strptime P close_date_str date_format of
           Inr close_date \<Rightarrow> ([], Inr (Some close_date))
         | Inl e \<Rightarrow>
             if e = TypeError \<or> e = ValueError then
               ([WarningInvalidClosingDate tender_id (dict_get response_item ''closingDate'')],
                Inr None)
             else ([], Inl e))
      else ([], Inr None))"

text \<open>
  \<^verbatim>\<open>response_item.get(key, '').replace('\n', ' ').replace('\r', '').strip()\<close>, followed by
  the casing method of the field. A value that is not a \<^verbatim>\<open>str\<close> has no method
  \<^verbatim>\<open>replace\<close>: the first call raises \<^verbatim>\<open>AttributeError\<close>.
\<close>

definition normalise_text :: "unicode_tables \<Rightarrow> (pystr \<Rightarrow> pystr) \<Rightarrow> pystr \<Rightarrow> pystr" where
  "normalise_text U casing s =
     casing (str_strip U (str_replace 0x0D [] (str_replace 0x0A (lit '' '') s)))"

definition text_field ::
  "unicode_tables \<Rightarrow> pydict \<Rightarrow> string \<Rightarrow> (pystr \<Rightarrow> pystr) \<Rightarrow> pyexn + pystr" where
  "text_field U response_item key casing =
     (case dict_get_default response_item key (JStr []) of
        JStr s \<Rightarrow> Inr (normalise_text U casing s)
      | _ \<Rightarrow> Inl AttributeError)"

definition build_tender ::
  "unicode_tables \<Rightarrow> pydict \<Rightarrow> datetime option \<Rightarrow> datetime option \<Rightarrow> SupportingDoc list \<Rightarrow>
   pyexn + TransnetTender option" where
  "build_tender U response_item pub_date close_date doc_list =
     ebind (text_field U response_item ''nameOfTender'' (str_title U)) (\<lambda>a_title.
     ebind (text_field U response_item ''descriptionOfTender'' (str_title U)) (\<lambda>a_description.
     ebind (text_field U response_item ''tenderNumber'' (str_upper U)) (\<lambda>a_tender_number.
     ebind (text_field U response_item ''nameOfInstitution'' (str_upper U)) (\<lambda>a_institution.
     ebind (text_field U response_item ''tenderCategory'' (str_title U)) (\<lambda>a_category.
     ebind (text_field U response_item ''tenderType'' (str_upper U)) (\<lambda>a_tender_type.
     ebind (text_field U response_item ''locationOfService'' (str_title U)) (\<lambda>a_location.
     ebind (text_field U response_item ''contactPersonEmailAddress'' (str_lower U)) (\<lambda>a_email.
     ebind (text_field U response_item ''contactPersonName'' (str_title U)) (\<lambda>a_contact_person.
       Inr (Some \<lparr>title = a_title, description = a_description, source = lit ''Transnet'',
                  published_date = pub_date, closing_date = close_date,
                  supporting_docs = doc_list, tags = [],
                  tender_number = a_tender_number, institution = a_institution,
                  category = a_category, tender_type = a_tender_type,
                  location = a_location, email = a_email,
                  contact_person = a_contact_person\<rparr>))))))))))"

definition from_api_response ::
  "unicode_tables \<Rightarrow> strptime \<Rightarrow> jval \<Rightarrow> log_record list \<times> (pyexn + TransnetTender option)" where
  "from_api_response U P item =
     (case item of
        JObj response_item \<Rightarrow>
          (let tender_id = dict_get response_item ''rowKey'' in
           if \<not> truthy tender_id then ([], Inr None)
           else
             (let attachment_url = dict_get response_item ''attachment'';
                  doc_list = (if truthy attachment_url
                              then [\<lparr>name = lit ''Tender Attachment'', url = attachment_url\<rparr>]
                              else [])
              in case parse_published_date P response_item tender_id of
                   (log1, Inl e) \<Rightarrow> (log1, Inl e)
                 | (log1, Inr pub_date) \<Rightarrow>
                     (case parse_closing_date P response_item tender_id of
                        (log2, Inl e) \<Rightarrow> (log1 @ log2, Inl e)
                      | (log2, Inr close_date) \<Rightarrow>
                          (log1 @ log2,
                           build_tender U response_item pub_date close_date doc_list))))
      | _ \<Rightarrow> ([], Inl AttributeError))"

subsection \<open>Serialisation: \<^verbatim>\<open>to_dict\<close> (models.py, lines 48--55, 97--112, 214--233)\<close>

definition doc_to_dict :: "SupportingDoc \<Rightarrow> jval" where
  "doc_to_dict doc = JObj [(''name'', JStr (name doc)), (''url'', url doc)]"

definition iso_or_none :: "datetime option \<Rightarrow> jval" where
  "iso_or_none d = (case d of None \<Rightarrow> JNull | Some t \<Rightarrow> JStr (isoformat t))"

text \<open>
  The base class calls \<^verbatim>\<open>tag.to_dict()\<close> on every tag. A tag is a plain value without that
  method, so a tender with a tag raises \<^verbatim>\<open>AttributeError\<close>; the factory always builds the
  empty list.
\<close>

definition to_dict :: "TransnetTender \<Rightarrow> pyexn + jval" where
  "to_dict t =
     (if tags t = [] then
        Inr (JObj
          [(''title'', JStr (title t)),
           (''description'', JStr (description t)),
           (''source'', JStr (source t)),
           (''publishedDate'', iso_or_none (published_date t)),
           (''closingDate'', iso_or_none (closing_date t)),
           (''supporting_docs'', JArr (map doc_to_dict (supporting_docs t))),
           (''tags'', JArr []),
           (''tenderNumber'', JStr (tender_number t)),
           (''institution'', JStr (institution t)),
           (''category'', JStr (category t)),
           (''tenderType'', JStr (tender_type t)),
           (''location'', JStr (location t)),
           (''email'', JStr (email t)),
           (''contactPerson'', JStr (contact_person t))])
      else Inl AttributeError)"

fun to_dicts :: "TransnetTender list \<Rightarrow> pyexn + jval list" where
  "to_dicts [] = Inr []"
| "to_dicts (t # ts) =
     (case to_dict t of
        Inl e \<Rightarrow> Inl e
      | Inr d \<Rightarrow> (case to_dicts ts of Inl e \<Rightarrow> Inl e | Inr ds \<Rightarrow> Inr (d # ds)))"

subsection \<open>The normalisation loop (lambda\_function.py, lines 84--104)\<close>

text \<open>
  The body of the loop (lines 88--104), given the outcome of the call of the factory in its
  \<^verbatim>\<open>try\<close> block: a record is appended, the skip outcome \<^verbatim>\<open>None\<close> adds one to
  \<^verbatim>\<open>skipped_count\<close>, and the handler \<^verbatim>\<open>except (KeyError, ValueError, TypeError)\<close> adds one
  to the same \<^verbatim>\<open>skipped_count\<close> and logs the item's \<^verbatim>\<open>rowKey\<close> (or \<^verbatim>\<open>'Unknown'\<close>); an
  exception of any other class leaves the loop and the handler.
\<close>

definition process_item ::
  "log_record list \<times> (pyexn + TransnetTender option) \<Rightarrow> jval \<Rightarrow>
   TransnetTender list \<Rightarrow> nat \<Rightarrow> log_record list \<Rightarrow>
   log_record list \<times> (pyexn + TransnetTender list \<times> nat)" where
  "process_item outcome item processed_tenders skipped_count lg =
     (case outcome of
        (l, Inr (Some tender_object)) \<Rightarrow>
          (lg @ l, Inr (processed_tenders @ [tender_object], skipped_count))
      | (l, Inr None) \<Rightarrow>
          (lg @ l, Inr (processed_tenders, skipped_count + 1))
      | (l, Inl e) \<Rightarrow>
          if e = KeyError \<or> e = ValueError \<or> e = TypeError then
            (case py_get_default item ''rowKey'' (JStr (lit ''Unknown'')) of
               Inl e' \<Rightarrow> (lg @ l, Inl e')
             | Inr tender_id \<Rightarrow>
                 (lg @ l @ [WarningSkippingTender tender_id e],
                  Inr (processed_tenders, skipped_count + 1)))
          else (lg @ l, Inl e))"

fun normalize ::
  "unicode_tables \<Rightarrow> strptime \<Rightarrow> jval list \<Rightarrow> TransnetTender list \<Rightarrow> nat \<Rightarrow>
   log_record list \<Rightarrow> log_record list \<times> (pyexn + TransnetTender list \<times> nat)" where
  "normalize U P [] processed_tenders skipped_count lg =
     (lg, Inr (processed_tenders, skipped_count))"
| "normalize U P (item # items) processed_tenders skipped_count lg =
     (case process_item (from_api_response U P item) item processed_tenders skipped_count lg of
        (lg', Inr (processed_tenders', skipped_count')) \<Rightarrow>
          normalize U P items processed_tenders' skipped_count' lg'
      | (lg', Inl e) \<Rightarrow> (lg', Inl e))"

subsection \<open>The batcher (lambda\_function.py, lines 114--120)\<close>

text \<open>
  \<^verbatim>\<open>range(start, stop, step)\<close> for a positive step, and the slice \<^verbatim>\<open>xs[i:j]\<close> for
  \<open>0 \<le> i \<le> j\<close> (a slice never raises: it is cut at the end of the list).
\<close>

function py_range :: "nat \<Rightarrow> nat \<Rightarrow> nat \<Rightarrow> nat list" where
  "py_range i n step = (if i < n \<and> 0 < step then i # py_range (i + step) n step else [])"
  by pat_completeness auto
termination
  by (relation "measure (\<lambda>(i, n, step). n - i)") auto

definition slice :: "'a list \<Rightarrow> nat \<Rightarrow> nat \<Rightarrow> 'a list" where
  "slice xs i j = take (j - i) (drop i xs)"

definition batch_size :: nat where
  "batch_size = 10"

definition message_batches :: "'a list \<Rightarrow> 'a list list" where
  "message_batches xs =
     map (\<lambda>i. slice xs i (i + batch_size)) (py_range 0 (length xs) batch_size)"

subsection \<open>The dispatcher (lambda\_function.py, lines 122--149)\<close>

text \<open>
  \<^verbatim>\<open>json.dumps\<close> is kept symbolic: a message body is the value it serialises. The queue
  client is the parameter \<open>send\<close>: from the queue's state and the entries of one call it
  gives the call's outcome (a response, or an exception) and the queue's next state.
\<close>

datatype json_text = JsonDumps jval

record entry =
  Id :: pystr
  MessageBody :: json_text
  MessageGroupId :: pystr

record sqs_response =
  Successful :: "jval list option"
  Failed :: "jval list option"

type_synonym 'q send_message_batch = "'q \<Rightarrow> entry list \<Rightarrow> (pyexn + sqs_response) \<times> 'q"

definition make_entries :: "nat \<Rightarrow> jval list \<Rightarrow> entry list" where
  "make_entries batch_index batch =
     map (\<lambda>(i, tender_dict).
            \<lparr>Id = lit ''tender_message_'' @ str_nat batch_index @ lit ''_'' @ str_nat i,
             MessageBody = JsonDumps tender_dict,
             MessageGroupId = lit ''TransnetTenderScrape''\<rparr>)
         (enumerate 0 batch)"

text \<open>\<^verbatim>\<open>len(response.get('Successful', []))\<close>.\<close>

definition successful_count :: "sqs_response \<Rightarrow> nat" where
  "successful_count response = (case Successful response of None \<Rightarrow> 0 | Some xs \<Rightarrow> length xs)"

text \<open>
  One iteration of the loop over \<^verbatim>\<open>enumerate(message_batches)\<close>; the state is the sent
  count, the log and the queue. \<^verbatim>\<open>except Exception\<close> takes every exception of the call.
\<close>

definition send_batch ::
  "'q send_message_batch \<Rightarrow> nat \<times> jval list \<Rightarrow> nat \<times> log_record list \<times> 'q \<Rightarrow>
   nat \<times> log_record list \<times> 'q" where
  "send_batch send indexed_batch st =
     (case indexed_batch of (batch_index, batch) \<Rightarrow>
      case st of (sent_count, lg, q) \<Rightarrow>
        (let entries = make_entries batch_index batch in
         if entries = [] then (sent_count, lg, q)
         else
           (case send q entries of
              (Inr response, q') \<Rightarrow>
                (sent_count + successful_count response,
                 lg @ [InfoBatchSent (length entries)] @
                   (case Failed response of
                      Some (f # fs) \<Rightarrow> [ErrorBatchSomeFailed (f # fs)]
                    | _ \<Rightarrow> []),
                 q')
            | (Inl e, q') \<Rightarrow> (sent_count, lg @ [ErrorBatchSendFailed e], q'))))"

definition dispatch ::
  "'q send_message_batch \<Rightarrow> 'q \<Rightarrow> jval list list \<Rightarrow> nat \<times> log_record list \<times> 'q" where
  "dispatch send q batches = fold (send_batch send) (enumerate 0 batches) (0, [], q)"

subsection \<open>The handler \<^verbatim>\<open>lambda_handler\<close> (lambda\_function.py, lines 53--157)\<close>

text \<open>
  The outcome of lines 63--66 (\<^verbatim>\<open>requests.get\<close>, \<^verbatim>\<open>raise_for_status\<close>,
  \<^verbatim>\<open>response.json()\<close>): an exception of the class \<^verbatim>\<open>RequestException\<close>, a
  \<^verbatim>\<open>json.JSONDecodeError\<close> that is not one, or the decoded body.
\<close>

datatype http_outcome =
    RaisesRequestException
  | RaisesJSONDecodeError
  | ReturnsJson jval

datatype response_body = BodyText json_text | BodyDict pydict

record response =
  statusCode :: nat
  body :: response_body

text \<open>\<^verbatim>\<open>len(x)\<close> and the items of \<^verbatim>\<open>for item in x\<close>.\<close>

definition py_len :: "jval \<Rightarrow> pyexn + nat" where
  "py_len x =
     (case x of
        JArr xs \<Rightarrow> Inr (length xs)
      | JStr s \<Rightarrow> Inr (length s)
      | JObj d \<Rightarrow> Inr (length d)
      | _ \<Rightarrow> Inl TypeError)"

definition py_iter :: "jval \<Rightarrow> pyexn + jval list" where
  "py_iter x =
     (case x of
        JArr xs \<Rightarrow> Inr xs
      | JStr s \<Rightarrow> Inr (map (\<lambda>c. JStr [c]) s)
      | JObj d \<Rightarrow> Inr (map (\<lambda>kv. JStr (lit (fst kv))) d)
      | _ \<Rightarrow> Inl TypeError)"

definition success_response :: response where
  "success_response =
     \<lparr>statusCode = 200,
      body = BodyDict [(''message'', JStr (lit ''Tender data processed and sent to SQS queue.''))]\<rparr>"

definition error_response :: "pystr \<Rightarrow> response" where
  "error_response msg =
     \<lparr>statusCode = 502, body = BodyText (JsonDumps (JObj [(''error'', JStr msg)]))\<rparr>"

definition lambda_handler ::
  "unicode_tables \<Rightarrow> strptime \<Rightarrow> http_outcome \<Rightarrow> 'q send_message_batch \<Rightarrow> 'q \<Rightarrow>
   log_record list \<times> 'q \<times> (pyexn + response)" where
  "lambda_handler U P http send q =
     (let lg0 = [InfoStarting, InfoFetching] in
      case http of
        RaisesRequestException \<Rightarrow>
          (lg0 @ [ErrorFetchFailed], q,
           Inr (error_response (lit ''Failed to fetch data from source API'')))
      | RaisesJSONDecodeError \<Rightarrow>
          (lg0 @ [ErrorInvalidJson], q,
           Inr (error_response (lit ''Invalid JSON response from source API'')))
      | ReturnsJson api_response_dict \<Rightarrow>
          (case py_get_default api_response_dict ''result'' (JArr []) of
             Inl e \<Rightarrow> (lg0, q, Inl e)
           | Inr api_data \<Rightarrow>
               (case py_len api_data of
                  Inl e \<Rightarrow> (lg0, q, Inl e)
                | Inr n \<Rightarrow>
                    (case py_iter api_data of
                       Inl e \<Rightarrow> (lg0 @ [InfoFetched n], q, Inl e)
                     | Inr items \<Rightarrow>
                         (case normalize U P items [] 0 (lg0 @ [InfoFetched n]) of
                            (lg2, Inl e) \<Rightarrow> (lg2, q, Inl e)
                          | (lg2, Inr (processed_tenders, skipped_count)) \<Rightarrow>
                              (let lg3 = lg2 @ [InfoProcessed (length processed_tenders)] @
                                     (if skipped_count > 0
                                      then [WarningSkippedTotal skipped_count] else [])
                               in case to_dicts processed_tenders of
                                    Inl e \<Rightarrow> (lg3, q, Inl e)
                                  | Inr processed_tender_dicts \<Rightarrow>
                                      (case dispatch send q (message_batches processed_tender_dicts) of
                                         (sent_count, lg4, q') \<Rightarrow>
                                           (lg3 @ lg4 @ [InfoComplete sent_count], q',
                                            Inr success_response))))))))"

section \<open>Notions used in the statements\<close>

subsection \<open>Normalised text\<close>





subsection \<open>The ASCII part of the character tables\<close>


definition ascii_space :: "nat \<Rightarrow> bool" where
  "ascii_space c = ((9 \<le> c \<and> c \<le> 13) \<or> (28 \<le> c \<and> c \<le> 32))"

definition ascii_is_upper :: "nat \<Rightarrow> bool" where
  "ascii_is_upper c = (65 \<le> c \<and> c \<le> 90)"

definition ascii_is_lower :: "nat \<Rightarrow> bool" where
  "ascii_is_lower c = (97 \<le> c \<and> c \<le> 122)"

definition ascii_cased :: "nat \<Rightarrow> bool" where
  "ascii_cased c = (ascii_is_upper c \<or> ascii_is_lower c)"

definition ascii_to_upper :: "nat \<Rightarrow> nat" where
  "ascii_to_upper c = (if ascii_is_lower c then c - 32 else c)"

definition ascii_to_lower :: "nat \<Rightarrow> nat" where
  "ascii_to_lower c = (if ascii_is_upper c then c + 32 else c)"






subsection \<open>Plain case mappings\<close>



subsection \<open>The factory's inputs and outputs\<close>

text \<open>
  The raw keys of the nine free-text attributes, in the order of the constructor call,
  and the condition under which a key's value has the method \<^verbatim>\<open>replace\<close>.
\<close>

definition text_keys :: "string list" where
  "text_keys =
     [''nameOfTender'', ''descriptionOfTender'', ''tenderNumber'', ''nameOfInstitution'',
      ''tenderCategory'', ''tenderType'', ''locationOfService'',
      ''contactPersonEmailAddress'', ''contactPersonName'']"

definition str_or_absent :: "pydict \<Rightarrow> string \<Rightarrow> bool" where
  "str_or_absent d key =
     (case map_of d key of None \<Rightarrow> True | Some (JStr s) \<Rightarrow> True | Some _ \<Rightarrow> False)"

text \<open>The string a raw key gives to the normalisation: its value, or the default \<^verbatim>\<open>''\<close>.\<close>

definition text_value :: "pydict \<Rightarrow> string \<Rightarrow> pystr" where
  "text_value d key = (case map_of d key of Some (JStr s) \<Rightarrow> s | _ \<Rightarrow> [])"



text \<open>
  The timestamp a raw date value stands for: that of the parser for a non-empty string
  the parser accepts, none for every other value.
\<close>

definition parsed_date :: "strptime \<Rightarrow> jval \<Rightarrow> datetime option" where
  "parsed_date P v = (case v of JStr s \<Rightarrow> (if s = [] then None else P s date_format) | _ \<Rightarrow> None)"

text \<open>The warnings of the two date blocks: one for each date value that is set and gives no timestamp.\<close>

definition date_warnings :: "strptime \<Rightarrow> pydict \<Rightarrow> log_record list" where
  "date_warnings P d =
     (if truthy (dict_get d ''publishedDate'') \<and> parsed_date P (dict_get d ''publishedDate'') = None
      then [WarningInvalidPublishedDate (dict_get d ''rowKey'') (dict_get d ''publishedDate'')]
      else []) @
     (if truthy (dict_get d ''closingDate'') \<and> parsed_date P (dict_get d ''closingDate'') = None
      then [WarningInvalidClosingDate (dict_get d ''rowKey'') (dict_get d ''closingDate'')]
      else [])"

subsection \<open>Sample collaborators for the worked examples\<close>

text \<open>
  An excerpt of the Unicode character database: the ASCII tables below 128 and the entries
  of five more code points, U+00A0 (no-break space, white space), U+00C9 and U+00E9 (E and e
  with acute), U+01F0 (j with caron: lower case, with the full upper-case and title-case
  mapping J, U+030C) and U+030C (combining caron: not cased, case-ignorable, as are the
  ASCII characters 27, 2E, 3A, 5E and 60). Every other code point has no entry.
\<close>

definition unicode_excerpt :: unicode_tables where
  "unicode_excerpt =
     \<lparr>is_whitespace = (\<lambda>c. ascii_space c \<or> c = 0xA0),
      is_cased = (\<lambda>c. ascii_cased c \<or> c = 0xC9 \<or> c = 0xE9 \<or> c = 0x1F0),
      is_case_ignorable =
        (\<lambda>c. c = 0x27 \<or> c = 0x2E \<or> c = 0x3A \<or> c = 0x5E \<or> c = 0x60 \<or> c = 0x30C),
      to_upper_full =
        (\<lambda>c. if c < 128 then [ascii_to_upper c]
             else if c = 0xE9 then [0xC9]
             else if c = 0x1F0 then [0x4A, 0x30C]
             else [c]),
      to_lower_full =
        (\<lambda>c. if c < 128 then [ascii_to_lower c]
             else if c = 0xC9 then [0xE9]
             else [c]),
      to_title_full =
        (\<lambda>c. if c < 128 then [ascii_to_upper c]
             else if c = 0xE9 then [0xC9]
             else if c = 0x1F0 then [0x4A, 0x30C]
             else [c])\<rparr>"

text \<open>
  A date parser that knows the two date strings of the repository's unit test and rejects
  every other string, and two queue clients that record every call in the queue state:
  one confirms every entry, one answers from a script of outcomes.
\<close>

definition unit_test_strptime :: strptime where
  "unit_test_strptime s fmt =
     (if fmt = date_format \<and> s = lit ''10/01/2025 09:00:00 AM''
      then Some \<lparr>year = 2025, month = 10, day = 1, hour = 9, minute = 0, second = 0\<rparr>
      else if fmt = date_format \<and> s = lit ''10/31/2025 04:00:00 PM''
      then Some \<lparr>year = 2025, month = 10, day = 31, hour = 16, minute = 0, second = 0\<rparr>
      else None)"

text \<open>The raw item of the unit test \<^verbatim>\<open>test_from_api_response_valid\<close>.\<close>

definition unit_test_item :: pydict where
  "unit_test_item =
     [(''rowKey'', JStr (lit ''abc123'')),
      (''nameOfTender'', JStr (lit ''Upgrade of Rail'')),
      (''descriptionOfTender'', JStr (lit ''Full overhaul of rail infrastructure'')),
      (''publishedDate'', JStr (lit ''10/01/2025 09:00:00 AM'')),
      (''closingDate'', JStr (lit ''10/31/2025 04:00:00 PM'')),
      (''attachment'', JStr (lit ''https://example.com/doc.pdf'')),
      (''tenderNumber'', JStr (lit ''TN123'')),
      (''nameOfInstitution'', JStr (lit ''Transnet Freight Rail'')),
      (''tenderCategory'', JStr (lit ''Infrastructure'')),
      (''tenderType'', JStr (lit ''Open'')),
      (''locationOfService'', JStr (lit ''Durban'')),
      (''contactPersonEmailAddress'', JStr (lit ''contact@transnet.co.za'')),
      (''contactPersonName'', JStr (lit ''John Doe''))]"



definition accept_all :: "(entry list list) send_message_batch" where
  "accept_all q entries =
     (Inr \<lparr>Successful = Some (map (\<lambda>e. JObj [(''Id'', JStr (Id e))]) entries), Failed = None\<rparr>,
      q @ [entries])"

definition scripted ::
  "((pyexn + sqs_response) list \<times> entry list list) send_message_batch" where
  "scripted q entries =
     (case q of
        ([], calls) \<Rightarrow> (Inl ClientError, ([], calls @ [entries]))
      | (r # rs, calls) \<Rightarrow> (r, (rs, calls @ [entries])))"

subsection \<open>The pipeline's inputs\<close>

text \<open>
  A raw item the factory takes without exception: a dict whose text keys, when it has an
  identifier, are bound to strings or absent.
\<close>

definition well_formed_item :: "jval \<Rightarrow> bool" where
  "well_formed_item item =
     (case item of
        JObj d \<Rightarrow> truthy (dict_get d ''rowKey'') \<longrightarrow> list_all (str_or_absent d) text_keys
      | _ \<Rightarrow> False)"

text \<open>
  A body of the source API with two raw items: the first binds a text key to null, the
  second is well formed.
\<close>

definition null_title_body :: jval where
  "null_title_body =
     JObj [(''result'',
       JArr [JObj [(''rowKey'', JStr (lit ''T1'')), (''nameOfTender'', JNull)],
             JObj [(''rowKey'', JStr (lit ''T2'')), (''nameOfTender'', JStr (lit ''Crane hire''))]])]"

subsection \<open>The transport seen from outside\<close>

text \<open>
  The calls a sequence of groups asks for: the entries of every group that is not empty, in
  order, one call each. Running these calls against the transport, one after the other and
  whatever each outcome is, gives the outcomes and the queue's last state. A response
  confirms as many entries as its \<^verbatim>\<open>Successful\<close> list holds (none when it has no such
  list); an exception confirms none.
\<close>

definition group_calls :: "jval list list \<Rightarrow> entry list list" where
  "group_calls batches =
     filter (\<lambda>entries. entries \<noteq> [])
       (map (\<lambda>(batch_index, batch). make_entries batch_index batch) (enumerate 0 batches))"

fun transport_run ::
  "'q send_message_batch \<Rightarrow> 'q \<Rightarrow> entry list list \<Rightarrow> (pyexn + sqs_response) list \<times> 'q" where
  "transport_run send q [] = ([], q)"
| "transport_run send q (entries # calls) =
     (case send q entries of
        (outcome, q') \<Rightarrow>
          (case transport_run send q' calls of
             (outcomes, q'') \<Rightarrow> (outcome # outcomes, q'')))"

definition confirmed :: "pyexn + sqs_response \<Rightarrow> nat" where
  "confirmed outcome =
     (case outcome of
        Inl e \<Rightarrow> 0
      | Inr response \<Rightarrow> (case Successful response of None \<Rightarrow> 0 | Some entries \<Rightarrow> length entries))"

section \<open>Properties\<close>

subsection \<open>Strings\<close>












lemma lit_eq_Nil [simp]: "(lit s = []) = (s = [])"
  by (simp add: lit_def)

lemma lit_inject [simp]: "(lit a = lit b) = (a = b)"
proof -
  have "inj (of_char :: char \<Rightarrow> nat)" by (rule inj_of_char)
  then show ?thesis unfolding lit_def by (rule inj_map_eq_map)
qed

subsection \<open>The methods on ASCII strings\<close>

lemma ascii_to_upper_idem [simp]: "ascii_to_upper (ascii_to_upper c) = ascii_to_upper c"
  by (auto simp add: ascii_to_upper_def ascii_is_lower_def)

lemma ascii_to_lower_idem [simp]: "ascii_to_lower (ascii_to_lower c) = ascii_to_lower c"
  by (auto simp add: ascii_to_lower_def ascii_is_upper_def)

lemma ascii_space_to_upper [simp]: "ascii_space (ascii_to_upper c) = ascii_space c"
  by (auto simp add: ascii_space_def ascii_to_upper_def ascii_is_lower_def)

lemma ascii_space_to_lower [simp]: "ascii_space (ascii_to_lower c) = ascii_space c"
  by (auto simp add: ascii_space_def ascii_to_lower_def ascii_is_upper_def)

lemma ascii_cased_to_upper [simp]: "ascii_cased (ascii_to_upper c) = ascii_cased c"
  by (auto simp add: ascii_cased_def ascii_to_upper_def ascii_is_lower_def ascii_is_upper_def)

lemma ascii_cased_to_lower [simp]: "ascii_cased (ascii_to_lower c) = ascii_cased c"
  by (auto simp add: ascii_cased_def ascii_to_lower_def ascii_is_lower_def ascii_is_upper_def)

lemma not_lower_to_upper [simp]: "\<not> ascii_is_lower (ascii_to_upper c)"
  by (auto simp add: ascii_to_upper_def ascii_is_lower_def)

lemma not_upper_to_lower [simp]: "\<not> ascii_is_upper (ascii_to_lower c)"
  by (auto simp add: ascii_to_lower_def ascii_is_upper_def)

lemma newline_to_upper [simp]:
  "(ascii_to_upper c = 10) = (c = 10)" "(ascii_to_upper c = 13) = (c = 13)"
  "(10 = ascii_to_upper c) = (c = 10)" "(13 = ascii_to_upper c) = (c = 13)"
  by (auto simp add: ascii_to_upper_def ascii_is_lower_def)

lemma newline_to_lower [simp]:
  "(ascii_to_lower c = 10) = (c = 10)" "(ascii_to_lower c = 13) = (c = 13)"
  "(10 = ascii_to_lower c) = (c = 10)" "(13 = ascii_to_lower c) = (c = 13)"
  by (auto simp add: ascii_to_lower_def ascii_is_upper_def)























subsection \<open>The methods with plain case mappings\<close>











subsection \<open>The excerpt of the character tables\<close>










subsection \<open>The factory\<close>

lemma text_field_eq:
  "text_field U d key casing =
     (if str_or_absent d key then Inr (normalise_text U casing (text_value d key))
      else Inl AttributeError)"
  by (simp add: text_field_def dict_get_default_def str_or_absent_def text_value_def
      split: option.split jval.split)

lemma ebind_text_field:
  "ebind (text_field U d key casing) f =
     (if str_or_absent d key then f (normalise_text U casing (text_value d key))
      else Inl AttributeError)"
  by (simp add: text_field_eq ebind_def)

lemma build_tender_ok:
  assumes "list_all (str_or_absent d) text_keys"
  shows "build_tender U d pub_date close_date doc_list =
     Inr (Some \<lparr>title = normalise_text U (str_title U) (text_value d ''nameOfTender''),
        description = normalise_text U (str_title U) (text_value d ''descriptionOfTender''),
        source = lit ''Transnet'', published_date = pub_date, closing_date = close_date,
        supporting_docs = doc_list, tags = [],
        tender_number = normalise_text U (str_upper U) (text_value d ''tenderNumber''),
        institution = normalise_text U (str_upper U) (text_value d ''nameOfInstitution''),
        category = normalise_text U (str_title U) (text_value d ''tenderCategory''),
        tender_type = normalise_text U (str_upper U) (text_value d ''tenderType''),
        location = normalise_text U (str_title U) (text_value d ''locationOfService''),
        email = normalise_text U (str_lower U) (text_value d ''contactPersonEmailAddress''),
        contact_person = normalise_text U (str_title U) (text_value d ''contactPersonName'')\<rparr>)"
  using assms
  by (simp add: build_tender_def text_keys_def ebind_text_field)

lemma build_tender_fail:
  assumes "\<not> list_all (str_or_absent d) text_keys"
  shows "build_tender U d pub_date close_date doc_list = Inl AttributeError"
  using assms
  by (simp add: build_tender_def text_keys_def ebind_text_field)

lemma parse_published_date_eq:
  "parse_published_date P d tender_id =
     (if truthy (dict_get d ''publishedDate'') \<and> parsed_date P (dict_get d ''publishedDate'') = None
      then [WarningInvalidPublishedDate tender_id (dict_get d ''publishedDate'')] else [],
      Inr (parsed_date P (dict_get d ''publishedDate'')))"
  by (cases "dict_get d ''publishedDate''")
    (auto simp add: parse_published_date_def datetime_strptime_def parsed_date_def Let_def
      split: option.split)

lemma parse_closing_date_eq:
  "parse_closing_date P d tender_id =
     (if truthy (dict_get d ''closingDate'') \<and> parsed_date P (dict_get d ''closingDate'') = None
      then [WarningInvalidClosingDate tender_id (dict_get d ''closingDate'')] else [],
      Inr (parsed_date P (dict_get d ''closingDate'')))"
  by (cases "dict_get d ''closingDate''")
    (auto simp add: parse_closing_date_def datetime_strptime_def parsed_date_def Let_def
      split: option.split)

lemma from_api_response_skip:
  "\<not> truthy (dict_get d ''rowKey'') \<Longrightarrow> from_api_response U P (JObj d) = ([], Inr None)"
  by (simp add: from_api_response_def)

lemma from_api_response_dict:
  assumes "truthy (dict_get d ''rowKey'')"
  shows "from_api_response U P (JObj d) =
     (date_warnings P d,
      build_tender U d (parsed_date P (dict_get d ''publishedDate''))
        (parsed_date P (dict_get d ''closingDate''))
        (if truthy (dict_get d ''attachment'')
         then [\<lparr>name = lit ''Tender Attachment'', url = dict_get d ''attachment''\<rparr>] else []))"
  using assms
  by (simp add: from_api_response_def parse_published_date_eq parse_closing_date_eq
      date_warnings_def Let_def)

lemma from_api_response_not_dict:
  "\<forall>d. item \<noteq> JObj d \<Longrightarrow> from_api_response U P item = ([], Inl AttributeError)"
  by (cases item) (simp_all add: from_api_response_def)

lemma from_api_response_exn:
  assumes "from_api_response U P item = (lg, Inl e)"
  shows "e = AttributeError"
proof (cases item)
  case (JObj d)
  show ?thesis
  proof (cases "truthy (dict_get d ''rowKey'')")
    case True
    with assms JObj show ?thesis
      by (cases "list_all (str_or_absent d) text_keys")
        (simp_all add: from_api_response_dict build_tender_ok build_tender_fail)
  next
    case False
    with assms JObj show ?thesis by (simp add: from_api_response_skip)
  qed
qed (use assms in \<open>simp_all add: from_api_response_def\<close>)

lemma from_api_response_record:
  assumes "from_api_response U P (JObj d) = (lg, Inr (Some t))"
  shows "truthy (dict_get d ''rowKey'')" "list_all (str_or_absent d) text_keys"
proof -
  show a: "truthy (dict_get d ''rowKey'')"
    using assms by (cases "truthy (dict_get d ''rowKey'')") (simp_all add: from_api_response_skip)
  show "list_all (str_or_absent d) text_keys"
    using assms a
    by (cases "list_all (str_or_absent d) text_keys")
      (simp_all add: from_api_response_dict build_tender_fail)
qed

lemma build_tender_cong:
  assumes "\<forall>k\<in>set text_keys. map_of d1 k = map_of d2 k"
  shows "build_tender U d1 p c docs = build_tender U d2 p c docs"
proof -
  have "\<And>k casing. k \<in> set text_keys \<Longrightarrow> text_field U d1 k casing = text_field U d2 k casing"
    using assms by (simp add: text_field_def dict_get_default_def)
  then have "text_field U d1 ''nameOfTender'' = text_field U d2 ''nameOfTender''"
    "text_field U d1 ''descriptionOfTender'' = text_field U d2 ''descriptionOfTender''"
    "text_field U d1 ''tenderNumber'' = text_field U d2 ''tenderNumber''"
    "text_field U d1 ''nameOfInstitution'' = text_field U d2 ''nameOfInstitution''"
    "text_field U d1 ''tenderCategory'' = text_field U d2 ''tenderCategory''"
    "text_field U d1 ''tenderType'' = text_field U d2 ''tenderType''"
    "text_field U d1 ''locationOfService'' = text_field U d2 ''locationOfService''"
    "text_field U d1 ''contactPersonEmailAddress'' = text_field U d2 ''contactPersonEmailAddress''"
    "text_field U d1 ''contactPersonName'' = text_field U d2 ''contactPersonName''"
    by (auto simp add: text_keys_def)
  then show ?thesis by (simp only: build_tender_def)
qed

subsection \<open>The normalisation loop\<close>

lemma process_item_none:
  "process_item (l, Inr None) item processed skipped lg = (lg @ l, Inr (processed, skipped + 1))"
  by (simp add: process_item_def)

lemma process_item_record:
  "process_item (l, Inr (Some t)) item processed skipped lg =
     (lg @ l, Inr (processed @ [t], skipped))"
  by (simp add: process_item_def)


lemma process_item_attribute_error:
  "process_item (l, Inl AttributeError) item processed skipped lg = (lg @ l, Inl AttributeError)"
  by (simp add: process_item_def)


lemma normalize_accept:
  "from_api_response U P item = (l, Inr (Some t)) \<Longrightarrow>
   normalize U P (item # items) processed skipped lg =
     normalize U P items (processed @ [t]) skipped (lg @ l)"
  by (simp add: process_item_record)

lemma normalize_none:
  "from_api_response U P item = (l, Inr None) \<Longrightarrow>
   normalize U P (item # items) processed skipped lg =
     normalize U P items processed (skipped + 1) (lg @ l)"
  by (simp add: process_item_none)

lemma normalize_raise:
  assumes "from_api_response U P item = (l, Inl e)"
  shows "normalize U P (item # items) processed skipped lg = (lg @ l, Inl AttributeError)"
proof -
  have "e = AttributeError" using assms by (rule from_api_response_exn)
  with assms show ?thesis by (simp add: process_item_attribute_error)
qed

subsection \<open>The dispatcher\<close>

lemma make_entries_Nil [simp]: "(make_entries i batch = []) = (batch = [])"
  by (simp add: make_entries_def enumerate_eq_zip)

lemma send_batch_empty: "send_batch send (i, []) st = st"
  by (cases st) (simp add: send_batch_def make_entries_def)

lemma send_batch_call:
  assumes "batch \<noteq> []" and "send q (make_entries i batch) = (outcome, q')"
  shows "\<exists>lg'. send_batch send (i, batch) (sent, lg, q) = (sent + confirmed outcome, lg', q')"
  using assms
  by (cases outcome) (simp_all add: send_batch_def confirmed_def successful_count_def Let_def)

lemma dispatch_fold:
  "\<exists>lg'. fold (send_batch send) (enumerate n batches) (sent, lg, q) =
     (sent + sum_list (map confirmed (fst (transport_run send q
         (filter (\<lambda>entries. entries \<noteq> [])
           (map (\<lambda>(batch_index, batch). make_entries batch_index batch) (enumerate n batches)))))),
      lg',
      snd (transport_run send q
         (filter (\<lambda>entries. entries \<noteq> [])
           (map (\<lambda>(batch_index, batch). make_entries batch_index batch) (enumerate n batches)))))"
proof (induction batches arbitrary: n sent lg q)
  case Nil
  show ?case by simp
next
  case (Cons batch batches)
  show ?case
  proof (cases "batch = []")
    case True
    with Cons.IH [of "Suc n" sent lg q] show ?thesis
      by (simp add: send_batch_empty)
  next
    case False
    obtain outcome q' where s: "send q (make_entries n batch) = (outcome, q')"
      by (cases "send q (make_entries n batch)")
    from send_batch_call [of batch send q n outcome q' sent lg, OF False s] obtain lg1 where
      b: "send_batch send (n, batch) (sent, lg, q) = (sent + confirmed outcome, lg1, q')"
      by blast
    obtain outcomes q'' where r: "transport_run send q'
         (filter (\<lambda>entries. entries \<noteq> [])
           (map (\<lambda>(batch_index, batch). make_entries batch_index batch) (enumerate (Suc n) batches)))
         = (outcomes, q'')"
      by (cases "transport_run send q'
         (filter (\<lambda>entries. entries \<noteq> [])
           (map (\<lambda>(batch_index, batch). make_entries batch_index batch) (enumerate (Suc n) batches)))")
    from Cons.IH [of "Suc n" "sent + confirmed outcome" lg1 q'] False s b r
    show ?thesis by (simp add: add.assoc)
  qed
qed

lemma length_group_calls:
  "length (filter (\<lambda>entries. entries \<noteq> [])
      (map (\<lambda>(batch_index, batch). make_entries batch_index batch) (enumerate n batches))) =
   length (filter (\<lambda>batch. batch \<noteq> []) batches)"
  by (induction batches arbitrary: n) simp_all

subsection \<open>The handler\<close>

lemma to_dicts_ok:
  "\<forall>t\<in>set ts. tags t = [] \<Longrightarrow> \<exists>ds. to_dicts ts = Inr ds \<and> length ds = length ts"
  by (induction ts) (auto simp add: to_dict_def)

lemma from_api_response_tags:
  assumes "from_api_response U P item = (l, Inr (Some t))"
  shows "tags t = []"
proof (cases item)
  case (JObj d)
  note r = from_api_response_record [OF assms [unfolded JObj]]
  from assms show ?thesis
    unfolding JObj from_api_response_dict [OF r(1)] build_tender_ok [OF r(2)] by auto
qed (use assms in \<open>simp_all add: from_api_response_def\<close>)

lemma from_api_response_well_formed:
  assumes "well_formed_item item"
  shows "\<exists>l res. from_api_response U P item = (l, Inr res)"
proof (cases item)
  case (JObj d)
  show ?thesis
  proof (cases "truthy (dict_get d ''rowKey'')")
    case True
    with assms JObj have "list_all (str_or_absent d) text_keys"
      by (simp add: well_formed_item_def)
    with True JObj show ?thesis by (simp add: from_api_response_dict build_tender_ok)
  next
    case False
    with JObj show ?thesis by (simp add: from_api_response_skip)
  qed
qed (use assms in \<open>simp_all add: well_formed_item_def\<close>)

lemma normalize_well_formed:
  assumes "\<forall>item\<in>set items. well_formed_item item" and "\<forall>t\<in>set processed. tags t = []"
  shows "\<exists>lg' processed' skipped'.
     normalize U P items processed skipped lg = (lg', Inr (processed', skipped')) \<and>
     (\<forall>t\<in>set processed'. tags t = [])"
  using assms
proof (induction items arbitrary: processed skipped lg)
  case Nil
  then show ?case by simp
next
  case (Cons item items)
  from Cons.prems(1) have "well_formed_item item" by simp
  from from_api_response_well_formed [OF this] obtain l res where
    f: "from_api_response U P item = (l, Inr res)" by blast
  show ?case
  proof (cases res)
    case None
    with f Cons.IH [of processed "skipped + 1" "lg @ l"] Cons.prems show ?thesis
      by (simp add: process_item_none)
  next
    case (Some t)
    with f have "tags t = []" using from_api_response_tags by blast
    with Some f Cons.IH [of "processed @ [t]" skipped "lg @ l"] Cons.prems show ?thesis
      by (simp add: process_item_record)
  qed
qed

lemma lambda_handler_returns:
  assumes "lambda_handler U P (ReturnsJson api_response_dict) send q = (lg, q', Inr r)"
  shows "r = success_response \<and>
     (\<exists>batches lg0. lg = lg0 @ [InfoComplete (fst (dispatch send q batches))] \<and>
        q' = snd (snd (dispatch send q batches)))"
proof (cases "py_get_default api_response_dict ''result'' (JArr [])")
  case (Inl e)
  with assms show ?thesis by (simp add: lambda_handler_def)
next
  case g: (Inr api_data)
  show ?thesis
  proof (cases "py_len api_data")
    case (Inl e)
    with assms g show ?thesis by (simp add: lambda_handler_def)
  next
    case n: (Inr n)
    show ?thesis
    proof (cases "py_iter api_data")
      case (Inl e)
      with assms g n show ?thesis by (simp add: lambda_handler_def)
    next
      case it: (Inr items)
      obtain lg2 nr where
        nz: "normalize U P items [] 0 [InfoStarting, InfoFetching, InfoFetched n] = (lg2, nr)"
        by (cases "normalize U P items [] 0 [InfoStarting, InfoFetching, InfoFetched n]")
      show ?thesis
      proof (cases nr)
        case (Inl e)
        with assms g n it nz show ?thesis by (simp add: lambda_handler_def)
      next
        case (Inr ps)
        obtain processed skipped where ps: "ps = (processed, skipped)" by (cases ps)
        show ?thesis
        proof (cases "to_dicts processed")
          case (Inl e)
          with assms g n it nz Inr ps show ?thesis by (simp add: lambda_handler_def Let_def)
        next
          case td: (Inr dicts)
          obtain sent lg4 q2 where
            d: "dispatch send q (message_batches dicts) = (sent, lg4, q2)"
            by (cases "dispatch send q (message_batches dicts)")
          from assms g n it nz Inr ps td d
          have "r = success_response" "q' = q2"
            "lg = (lg2 @ [InfoProcessed (length processed)] @
                (if skipped > 0 then [WarningSkippedTotal skipped] else []) @ lg4) @
              [InfoComplete sent]"
            by (simp_all add: lambda_handler_def Let_def)
          with d show ?thesis
            by (intro conjI exI [of _ "message_batches dicts"]
                exI [of _ "lg2 @ [InfoProcessed (length processed)] @
                (if skipped > 0 then [WarningSkippedTotal skipped] else []) @ lg4"]) simp_all
        qed
      qed
    qed
  qed
qed

lemma lambda_handler_well_formed:
  assumes "map_of d ''result'' = Some (JArr items) \<or> (map_of d ''result'' = None \<and> items = [])"
    and "\<forall>item\<in>set items. well_formed_item item"
  shows "\<exists>lg q'. lambda_handler U P (ReturnsJson (JObj d)) send q = (lg, q', Inr success_response)"
proof -
  have g: "py_get_default (JObj d) ''result'' (JArr []) = Inr (JArr items)"
    using assms(1) by (auto simp add: py_get_default_def dict_get_default_def)
  from normalize_well_formed [OF assms(2), of "[]" U P 0 "[InfoStarting, InfoFetching, InfoFetched (length items)]"]
  obtain lg2 processed skipped where
    nz: "normalize U P items [] 0 [InfoStarting, InfoFetching, InfoFetched (length items)] =
      (lg2, Inr (processed, skipped))" and tg: "\<forall>t\<in>set processed. tags t = []"
    by auto
  from to_dicts_ok [OF tg] obtain dicts where td: "to_dicts processed = Inr dicts" by blast
  obtain sent lg4 q2 where d: "dispatch send q (message_batches dicts) = (sent, lg4, q2)"
    by (cases "dispatch send q (message_batches dicts)")
  show ?thesis
    using g nz td d by (simp add: lambda_handler_def Let_def py_len_def py_iter_def)
qed

subsection \<open>The unit test's item, evaluated\<close>

lemma unit_test_record:
  "from_api_response unicode_excerpt unit_test_strptime (JObj unit_test_item) =
     ([], Inr (Some \<lparr>title = lit ''Upgrade Of Rail'',
        description = lit ''Full Overhaul Of Rail Infrastructure'',
        source = lit ''Transnet'',
        published_date = Some \<lparr>year = 2025, month = 10, day = 1, hour = 9, minute = 0, second = 0\<rparr>,
        closing_date = Some \<lparr>year = 2025, month = 10, day = 31, hour = 16, minute = 0, second = 0\<rparr>,
        supporting_docs =
          [\<lparr>name = lit ''Tender Attachment'', url = JStr (lit ''https://example.com/doc.pdf'')\<rparr>],
        tags = [],
        tender_number = lit ''TN123'',
        institution = lit ''TRANSNET FREIGHT RAIL'',
        category = lit ''Infrastructure'',
        tender_type = lit ''OPEN'',
        location = lit ''Durban'',
        email = lit ''contact@transnet.co.za'',
        contact_person = lit ''John Doe''\<rparr>))"
  by code_simp

lemma unit_test_item_ok:
  "truthy (dict_get unit_test_item ''rowKey'')" "list_all (str_or_absent unit_test_item) text_keys"
  by (simp_all add: unit_test_item_def dict_get_def str_or_absent_def text_keys_def lit_def)


subsection \<open>The batcher\<close>

lemma py_range_unfold:
  "py_range i n step = (if i < n \<and> 0 < step then i # py_range (i + step) n step else [])"
  by (rule py_range.simps)

declare py_range.simps [simp del]

lemma py_range_stop [simp]: "n \<le> i \<Longrightarrow> py_range i n step = []"
  by (subst py_range_unfold) simp

lemma py_range_step [simp]:
  "i < n \<Longrightarrow> 0 < step \<Longrightarrow> py_range i n step = i # py_range (i + step) n step"
  by (subst py_range_unfold) simp

lemma step_cnt:
  fixes step :: nat
  assumes "0 < step" "i < n"
  shows "(n - i + step - 1) div step = Suc ((n - (i + step) + step - 1) div step)"
proof (cases "i + step \<le> n")
  case True
  then have "n - i + step - 1 = (n - (i + step) + step - 1) + step"
    using assms by simp
  then have "(n - i + step - 1) div step = ((n - (i + step) + step - 1) + step) div step"
    by (rule arg_cong)
  also have "\<dots> = Suc ((n - (i + step) + step - 1) div step)"
    using assms(1) by (simp only: div_add_self2)
  finally show ?thesis .
next
  case False
  then have z: "n - (i + step) = 0" by simp
  have a: "n - i + step - 1 = step + (n - i - 1)" using assms by simp
  have b: "n - i - 1 < step" using False assms by simp
  have "(n - i + step - 1) div step = 1"
    unfolding a using b assms(1) by simp
  moreover have "(n - (i + step) + step - 1) div step = 0"
    unfolding z using assms(1) by simp
  ultimately show ?thesis by simp
qed

lemma py_range_eq_map:
  assumes "0 < step"
  shows "py_range i n step = map (\<lambda>k. i + k * step) [0..<(n - i + step - 1) div step]"
  using assms
proof (induction i n step rule: py_range.induct)
  case (1 i n step)
  show ?case
  proof (cases "i < n")
    case False
    then have "(n - i + step - 1) div step = 0"
      using "1.prems" by simp
    with False show ?thesis by simp
  next
    case True
    have ih: "py_range (i + step) n step =
        map (\<lambda>k. i + step + k * step) [0..<(n - (i + step) + step - 1) div step]"
      using "1.IH" True "1.prems" by simp
    have "map (\<lambda>k. i + k * step) [0..<Suc ((n - (i + step) + step - 1) div step)] =
        i # map (\<lambda>k. i + step + k * step) [0..<(n - (i + step) + step - 1) div step]"
      by (simp add: upt_conv_Cons map_Suc_upt [symmetric] del: upt_Suc)
    with ih step_cnt [OF "1.prems" True] True "1.prems" show ?thesis by simp
  qed
qed

lemma ceil_nat: "\<lceil>real n / 10\<rceil> = int ((n + 9) div 10)"
proof -
  have "\<lceil>real n / 10\<rceil> = \<lceil>of_int (int n) / (of_int 10 :: real)\<rceil>" by simp
  also have "\<dots> = - (- int n div 10)" by (rule ceiling_divide_eq_div)
  also have "\<dots> = int ((n + 9) div 10)" by (simp add: zdiv_int)
  finally show ?thesis .
qed

lemma message_batches_eq:
  "message_batches xs =
     map (\<lambda>k. take 10 (drop (k * 10) xs)) [0..<(length xs + 9) div 10]"
  by (simp add: message_batches_def slice_def batch_size_def py_range_eq_map comp_def add.commute)

lemma length_message_batches: "length (message_batches xs) = (length xs + 9) div 10"
  by (simp add: message_batches_eq)

lemma nth_message_batches:
  "k < length (message_batches xs) \<Longrightarrow> message_batches xs ! k = take 10 (drop (k * 10) xs)"
  by (simp add: message_batches_eq)

lemma concat_chunks:
  "concat (map (\<lambda>k. take 10 (drop (k * 10) xs)) [0..<m]) = take (m * 10) xs"
proof (induction m)
  case 0
  show ?case by simp
next
  case (Suc m)
  have "take (m * 10) xs @ take 10 (drop (m * 10) xs) = take (m * 10 + 10) xs"
    by (simp add: take_add)
  with Suc show ?case by (simp add: add.commute)
qed

lemma concat_message_batches: "concat (message_batches xs) = xs"
proof -
  have "length xs \<le> ((length xs + 9) div 10) * 10" by presburger
  then show ?thesis by (simp add: message_batches_eq concat_chunks)
qed

lemma group_size:
  assumes "k < length (message_batches xs)"
  shows "1 \<le> length (message_batches xs ! k)" "length (message_batches xs ! k) \<le> 10"
    "Suc k < length (message_batches xs) \<Longrightarrow> length (message_batches xs ! k) = 10"
proof -
  have k: "k < (length xs + 9) div 10" using assms by (simp add: length_message_batches)
  then have "k * 10 < length xs" by presburger
  then show "1 \<le> length (message_batches xs ! k)"
    by (simp add: nth_message_batches [OF assms])
  show "length (message_batches xs ! k) \<le> 10"
    by (simp add: nth_message_batches [OF assms])
  assume "Suc k < length (message_batches xs)"
  then have "Suc k < (length xs + 9) div 10" by (simp add: length_message_batches)
  then have "k * 10 + 10 \<le> length xs" by presburger
  then show "length (message_batches xs ! k) = 10"
    by (simp add: nth_message_batches [OF assms])
qed

text \<open>
  Claim C5. The batcher is a function of the input sequence alone. For \<open>N\<close> records it
  gives \<open>\<lceil>N / 10\<rceil>\<close> groups; the groups concatenated in order are the input; every
  group holds between 1 and 10 records, and every group except the last holds exactly
  10; no record gives no group.
\<close>

theorem batcher_partition:
  "concat (message_batches xs) = xs \<and>
   int (length (message_batches xs)) = \<lceil>real (length xs) / 10\<rceil> \<and>
   (\<forall>k < length (message_batches xs).
      1 \<le> length (message_batches xs ! k) \<and> length (message_batches xs ! k) \<le> 10 \<and>
      (Suc k < length (message_batches xs) \<longrightarrow> length (message_batches xs ! k) = 10)) \<and>
   (message_batches ([] :: 'a list) = [])"
proof -
  have "message_batches ([] :: 'a list) = []"
    by (simp add: message_batches_def)
  then show ?thesis
    using concat_message_batches [of xs] group_size [of _ xs]
    by (simp add: ceil_nat length_message_batches)
qed

theorem batcher_partition_witness:
  "message_batches ''abcdefghijkl'' = [''abcdefghij'', ''kl''] \<and>
   concat (message_batches ''abcdefghijkl'') = ''abcdefghijkl'' \<and>
   int (length (message_batches ''abcdefghijkl'')) = \<lceil>real (length ''abcdefghijkl'') / 10\<rceil> \<and>
   (0 < length (message_batches ''abcdefghijkl'') \<and> Suc 0 < length (message_batches ''abcdefghijkl'') \<and>
    length (message_batches ''abcdefghijkl'' ! 0) = 10) \<and>
   (1 < length (message_batches ''abcdefghijkl'') \<and>
    1 \<le> length (message_batches ''abcdefghijkl'' ! 1) \<and> length (message_batches ''abcdefghijkl'' ! 1) \<le> 10)"
proof -
  have v: "message_batches ''abcdefghijkl'' = [''abcdefghij'', ''kl'']"
    by (simp add: message_batches_def slice_def batch_size_def)
  show ?thesis
    using batcher_partition [of "''abcdefghijkl''"] unfolding v by simp
qed

subsection \<open>Claims about the factory\<close>





text \<open>
  Claim C1, as the code has it. The record type has no identifier attribute: the factory
  reads \<^verbatim>\<open>rowKey\<close> to decide between a record and the skip outcome, and to word the
  date warnings, and stores it nowhere. So a raw item with an identifier never gives the
  skip outcome, it gives a record whenever its text keys are bound to strings or absent,
  and two raw items that differ in the identifier alone give the same result.
\<close>

theorem record_carries_no_identifier:
  assumes "truthy (dict_get d1 ''rowKey'')" and "truthy (dict_get d2 ''rowKey'')"
    and "\<forall>k. k \<noteq> ''rowKey'' \<longrightarrow> map_of d1 k = map_of d2 k"
  shows "snd (from_api_response U P (JObj d1)) = snd (from_api_response U P (JObj d2)) \<and>
     snd (from_api_response U P (JObj d1)) \<noteq> Inr None \<and>
     (list_all (str_or_absent d1) text_keys \<longrightarrow>
        (\<exists>t. snd (from_api_response U P (JObj d1)) = Inr (Some t)))"
proof -
  have k: "\<forall>k\<in>set text_keys. map_of d1 k = map_of d2 k"
    using assms(3) by (simp add: text_keys_def)
  have g: "dict_get d1 ''publishedDate'' = dict_get d2 ''publishedDate''"
    "dict_get d1 ''closingDate'' = dict_get d2 ''closingDate''"
    "dict_get d1 ''attachment'' = dict_get d2 ''attachment''"
    using assms(3) by (simp_all add: dict_get_def)
  have same: "snd (from_api_response U P (JObj d1)) = snd (from_api_response U P (JObj d2))"
    by (simp add: from_api_response_dict assms(1,2) g build_tender_cong [OF k])
  have some: "snd (from_api_response U P (JObj d1)) \<noteq> Inr None"
    by (cases "list_all (str_or_absent d1) text_keys")
      (simp_all add: from_api_response_dict assms(1) build_tender_ok build_tender_fail)
  have "list_all (str_or_absent d1) text_keys \<longrightarrow>
      (\<exists>t. snd (from_api_response U P (JObj d1)) = Inr (Some t))"
    by (simp add: from_api_response_dict assms(1) build_tender_ok)
  with same some show ?thesis by blast
qed

theorem record_carries_no_identifier_witness:
  "truthy (dict_get [(''rowKey'', JStr (lit ''A1'')), (''tenderNumber'', JStr (lit ''tn 7''))] ''rowKey'') \<and>
   truthy (dict_get [(''rowKey'', JStr (lit ''B2'')), (''tenderNumber'', JStr (lit ''tn 7''))] ''rowKey'') \<and>
   snd (from_api_response unicode_excerpt unit_test_strptime
          (JObj [(''rowKey'', JStr (lit ''A1'')), (''tenderNumber'', JStr (lit ''tn 7''))])) =
   snd (from_api_response unicode_excerpt unit_test_strptime
          (JObj [(''rowKey'', JStr (lit ''B2'')), (''tenderNumber'', JStr (lit ''tn 7''))])) \<and>
   snd (from_api_response unicode_excerpt unit_test_strptime
          (JObj [(''rowKey'', JStr (lit ''A1'')), (''tenderNumber'', JStr (lit ''tn 7''))])) \<noteq> Inr None \<and>
   list_all (str_or_absent [(''rowKey'', JStr (lit ''A1'')), (''tenderNumber'', JStr (lit ''tn 7''))]) text_keys \<and>
   (\<exists>t. snd (from_api_response unicode_excerpt unit_test_strptime
          (JObj [(''rowKey'', JStr (lit ''A1'')), (''tenderNumber'', JStr (lit ''tn 7''))])) = Inr (Some t))"
proof -
  let ?d1 = "[(''rowKey'', JStr (lit ''A1'')), (''tenderNumber'', JStr (lit ''tn 7''))]"
  let ?d2 = "[(''rowKey'', JStr (lit ''B2'')), (''tenderNumber'', JStr (lit ''tn 7''))]"
  have a: "truthy (dict_get ?d1 ''rowKey'')" and b: "truthy (dict_get ?d2 ''rowKey'')"
    by (simp_all add: dict_get_def)
  have c: "\<forall>k. k \<noteq> ''rowKey'' \<longrightarrow> map_of ?d1 k = map_of ?d2 k" by simp
  have d: "list_all (str_or_absent ?d1) text_keys"
    by (simp add: str_or_absent_def text_keys_def)
  show ?thesis
    using record_carries_no_identifier [OF a b c, where U = unicode_excerpt and P = unit_test_strptime] a b d by blast
qed

text \<open>
  Claim C1 as it is stated fails: the raw items with the identifiers \<^verbatim>\<open>A1\<close> and
  \<^verbatim>\<open>B2\<close> give one and the same record, none of whose attributes is the identifier.
\<close>

theorem identifier_absent_from_record:
  "from_api_response unicode_excerpt unit_test_strptime (JObj [(''rowKey'', JStr (lit ''A1''))]) =
     ([], Inr (Some \<lparr>title = [], description = [], source = lit ''Transnet'',
        published_date = None, closing_date = None, supporting_docs = [], tags = [],
        tender_number = [], institution = [], category = [], tender_type = [],
        location = [], email = [], contact_person = []\<rparr>)) \<and>
   from_api_response unicode_excerpt unit_test_strptime (JObj [(''rowKey'', JStr (lit ''B2''))]) =
     ([], Inr (Some \<lparr>title = [], description = [], source = lit ''Transnet'',
        published_date = None, closing_date = None, supporting_docs = [], tags = [],
        tender_number = [], institution = [], category = [], tender_type = [],
        location = [], email = [], contact_person = []\<rparr>)) \<and>
   JStr (lit ''A1'') \<noteq> JStr (lit ''B2'')"
  by code_simp




text \<open>
  Claim C8. In a record the factory returns, the document list is decided by the raw
  value of \<^verbatim>\<open>attachment\<close> alone: a value that is set (a non-empty link in particular)
  gives exactly one document, named \<^verbatim>\<open>Tender Attachment\<close>, whose url is that value
  unchanged; an absent or empty value gives no document; there is never more than one.
\<close>

theorem attachment_document:
  assumes "from_api_response U P (JObj d) = (lg, Inr (Some t))"
  shows "(truthy (dict_get d ''attachment'') \<longrightarrow>
        supporting_docs t = [\<lparr>name = lit ''Tender Attachment'', url = dict_get d ''attachment''\<rparr>]) \<and>
     (\<forall>link. map_of d ''attachment'' = Some (JStr link) \<and> link \<noteq> [] \<longrightarrow>
        supporting_docs t = [\<lparr>name = lit ''Tender Attachment'', url = JStr link\<rparr>]) \<and>
     (map_of d ''attachment'' = None \<or> map_of d ''attachment'' = Some (JStr []) \<or>
      \<not> truthy (dict_get d ''attachment'') \<longrightarrow> supporting_docs t = []) \<and>
     length (supporting_docs t) \<le> 1"
proof -
  note r = from_api_response_record [OF assms]
  have "supporting_docs t =
      (if truthy (dict_get d ''attachment'')
       then [\<lparr>name = lit ''Tender Attachment'', url = dict_get d ''attachment''\<rparr>] else [])"
    using assms by (auto simp add: from_api_response_dict [OF r(1)] build_tender_ok [OF r(2)])
  then show ?thesis by (auto simp add: dict_get_def)
qed

theorem attachment_document_witness:
  "from_api_response unicode_excerpt unit_test_strptime (JObj unit_test_item) =
     ([], Inr (Some \<lparr>title = lit ''Upgrade Of Rail'',
        description = lit ''Full Overhaul Of Rail Infrastructure'',
        source = lit ''Transnet'',
        published_date = Some \<lparr>year = 2025, month = 10, day = 1, hour = 9, minute = 0, second = 0\<rparr>,
        closing_date = Some \<lparr>year = 2025, month = 10, day = 31, hour = 16, minute = 0, second = 0\<rparr>,
        supporting_docs = [\<lparr>name = lit ''Tender Attachment'', url = JStr (lit ''https://example.com/doc.pdf'')\<rparr>],
        tags = [],
        tender_number = lit ''TN123'',
        institution = lit ''TRANSNET FREIGHT RAIL'',
        category = lit ''Infrastructure'',
        tender_type = lit ''OPEN'',
        location = lit ''Durban'',
        email = lit ''contact@transnet.co.za'',
        contact_person = lit ''John Doe''\<rparr>)) \<and>
   map_of unit_test_item ''attachment'' = Some (JStr (lit ''https://example.com/doc.pdf'')) \<and>
   truthy (dict_get unit_test_item ''attachment'') \<and>
   length [\<lparr>name = lit ''Tender Attachment'', url = JStr (lit ''https://example.com/doc.pdf'')\<rparr>] \<le> 1"
proof -
  have m: "map_of unit_test_item ''attachment'' = Some (JStr (lit ''https://example.com/doc.pdf''))"
    by (simp add: unit_test_item_def)
  then have t: "truthy (dict_get unit_test_item ''attachment'')" by (simp add: dict_get_def)
  show ?thesis
    using attachment_document [OF unit_test_record] unit_test_record m t by simp
qed

text \<open>
  Claim C10, as the code has it. A raw item with an identifier in which a text key is bound
  to null gives no record: \<^verbatim>\<open>None\<close> has no method \<^verbatim>\<open>replace\<close>, and the factory raises
  \<^verbatim>\<open>AttributeError\<close> (not \<^verbatim>\<open>TypeError\<close>). The empty string is the value of an absent
  key only.
\<close>

theorem null_text_field_raises:
  assumes "truthy (dict_get d ''rowKey'')" and "key \<in> set text_keys"
    and "map_of d key = Some JNull"
  shows "snd (from_api_response U P (JObj d)) = Inl AttributeError"
proof -
  have "\<not> str_or_absent d key" using assms(3) by (simp add: str_or_absent_def)
  with assms(2) have "\<not> list_all (str_or_absent d) text_keys"
    by (auto simp add: list_all_iff)
  then show ?thesis by (simp add: from_api_response_dict [OF assms(1)] build_tender_fail)
qed

theorem null_text_field_raises_witness:
  "truthy (dict_get [(''rowKey'', JStr (lit ''T1'')), (''nameOfTender'', JNull)] ''rowKey'') \<and>
   ''nameOfTender'' \<in> set text_keys \<and>
   map_of [(''rowKey'', JStr (lit ''T1'')), (''nameOfTender'', JNull)] ''nameOfTender'' = Some JNull \<and>
   snd (from_api_response unicode_excerpt unit_test_strptime
          (JObj [(''rowKey'', JStr (lit ''T1'')), (''nameOfTender'', JNull)])) = Inl AttributeError"
proof -
  let ?d = "[(''rowKey'', JStr (lit ''T1'')), (''nameOfTender'', JNull)]"
  have a: "truthy (dict_get ?d ''rowKey'')" by (simp add: dict_get_def)
  have b: "''nameOfTender'' \<in> set text_keys" by (simp add: text_keys_def)
  have c: "map_of ?d ''nameOfTender'' = Some JNull" by simp
  show ?thesis
    using null_text_field_raises [OF a b c, where U = unicode_excerpt and P = unit_test_strptime] a b c by simp
qed

text \<open>
  Claim C10 as it is stated fails: the exception of a null title is an
  \<^verbatim>\<open>AttributeError\<close>, and the loop ends with it instead of counting a skip.
\<close>

theorem null_title_is_no_caught_type_error:
  "from_api_response unicode_excerpt unit_test_strptime
     (JObj [(''rowKey'', JStr (lit ''T1'')), (''nameOfTender'', JNull)]) = ([], Inl AttributeError) \<and>
   AttributeError \<noteq> TypeError \<and>
   normalize unicode_excerpt unit_test_strptime
     [JObj [(''rowKey'', JStr (lit ''T1'')), (''nameOfTender'', JNull)]] [] 0 [] =
     ([], Inl AttributeError)"
  by code_simp

subsection \<open>Claims about the normalisation loop\<close>




text \<open>
  Claim C7 asks that an exception of one item becomes a skip and the loop goes on. The
  handler of the loop takes \<^verbatim>\<open>KeyError\<close>, \<^verbatim>\<open>ValueError\<close> and \<^verbatim>\<open>TypeError\<close>, and the
  factory raises none of them (\<open>from_api_response_exn\<close>): its only exception, the
  \<^verbatim>\<open>AttributeError\<close> of a value without the method it calls, leaves the loop and the
  handler (\<open>normalize_raise\<close>). Below, the first of two raw items binds the title to
  null: the run ends with the exception, the second item is never read, nothing is sent.
\<close>

theorem attribute_error_leaves_the_handler:
  "lambda_handler unicode_excerpt unit_test_strptime (ReturnsJson null_title_body) accept_all [] =
     ([InfoStarting, InfoFetching, InfoFetched 2], [], Inl AttributeError)"
  by code_simp

subsection \<open>Claims about the dispatcher\<close>

text \<open>
  Claim C6. For every sequence of groups, every transport and every state of the queue,
  the dispatcher makes exactly the calls \<open>group_calls\<close>: one call for each group that is
  not empty, in order, whatever the outcomes of the earlier calls are (a response that
  rejects entries and an exception included), no call for an empty group and no second
  call for any group. Its sent count is the sum, over these calls, of the number of
  entries in the \<^verbatim>\<open>Successful\<close> list of the response, a call that raises counting for
  nothing.
\<close>

theorem dispatch_counts_confirmed_entries:
  "fst (dispatch send q batches) =
     sum_list (map confirmed (fst (transport_run send q (group_calls batches)))) \<and>
   snd (snd (dispatch send q batches)) = snd (transport_run send q (group_calls batches)) \<and>
   length (group_calls batches) = length (filter (\<lambda>batch. batch \<noteq> []) batches)"
proof -
  from dispatch_fold [of send 0 batches 0 "[]" q] obtain lg' where
    "dispatch send q batches =
       (sum_list (map confirmed (fst (transport_run send q (group_calls batches)))), lg',
        snd (transport_run send q (group_calls batches)))"
    by (auto simp add: dispatch_def group_calls_def)
  moreover have "length (group_calls batches) = length (filter (\<lambda>batch. batch \<noteq> []) batches)"
    unfolding group_calls_def by (rule length_group_calls)
  ultimately show ?thesis by simp
qed

text \<open>
  Four groups, one of them empty, make three calls: the first response confirms two of
  three entries and rejects one, the second call raises, the third response confirms two
  entries. The sent count is 4.
\<close>

theorem dispatch_counts_confirmed_entries_witness:
  "dispatch scripted
     ([Inr \<lparr>Successful = Some [JStr (lit ''tender_message_0_0''), JStr (lit ''tender_message_0_2'')],
             Failed = Some [JStr (lit ''tender_message_0_1'')]\<rparr>,
       Inl ClientError,
       Inr \<lparr>Successful = Some [JStr (lit ''tender_message_3_0''), JStr (lit ''tender_message_3_1'')],
             Failed = None\<rparr>], [])
     [[JNull, JNull, JNull], [], [JNull], [JNull, JNull]] =
   (4,
    [InfoBatchSent 3, ErrorBatchSomeFailed [JStr (lit ''tender_message_0_1'')],
     ErrorBatchSendFailed ClientError, InfoBatchSent 2],
    ([], group_calls [[JNull, JNull, JNull], [], [JNull], [JNull, JNull]])) \<and>
   sum_list (map confirmed (fst (transport_run scripted
     ([Inr \<lparr>Successful = Some [JStr (lit ''tender_message_0_0''), JStr (lit ''tender_message_0_2'')],
             Failed = Some [JStr (lit ''tender_message_0_1'')]\<rparr>,
       Inl ClientError,
       Inr \<lparr>Successful = Some [JStr (lit ''tender_message_3_0''), JStr (lit ''tender_message_3_1'')],
             Failed = None\<rparr>], [])
     (group_calls [[JNull, JNull, JNull], [], [JNull], [JNull, JNull]])))) = 4 \<and>
   length (group_calls [[JNull, JNull, JNull], [], [JNull], [JNull, JNull]]) = 3"
proof -
  have "dispatch scripted
     ([Inr \<lparr>Successful = Some [JStr (lit ''tender_message_0_0''), JStr (lit ''tender_message_0_2'')],
             Failed = Some [JStr (lit ''tender_message_0_1'')]\<rparr>,
       Inl ClientError,
       Inr \<lparr>Successful = Some [JStr (lit ''tender_message_3_0''), JStr (lit ''tender_message_3_1'')],
             Failed = None\<rparr>], [])
     [[JNull, JNull, JNull], [], [JNull], [JNull, JNull]] =
   (4,
    [InfoBatchSent 3, ErrorBatchSomeFailed [JStr (lit ''tender_message_0_1'')],
     ErrorBatchSendFailed ClientError, InfoBatchSent 2],
    ([], group_calls [[JNull, JNull, JNull], [], [JNull], [JNull, JNull]]))"
    by code_simp
  moreover have "length (filter (\<lambda>batch. batch \<noteq> [])
      [[JNull, JNull, JNull], [], [JNull], [JNull, JNull :: jval]]) = 3"
    by simp
  ultimately show ?thesis
    using dispatch_counts_confirmed_entries [of scripted
        "([Inr \<lparr>Successful = Some [JStr (lit ''tender_message_0_0''), JStr (lit ''tender_message_0_2'')],
             Failed = Some [JStr (lit ''tender_message_0_1'')]\<rparr>,
       Inl ClientError,
       Inr \<lparr>Successful = Some [JStr (lit ''tender_message_3_0''), JStr (lit ''tender_message_3_1'')],
             Failed = None\<rparr>], [])"
        "[[JNull, JNull, JNull], [], [JNull], [JNull, JNull]]"]
    by simp
qed

subsection \<open>Claims about the handler\<close>

text \<open>
  Claim C9, as the code has it. Whenever the handler returns after a fetch that gave a
  body, the summary is the fixed success response: status 200 and the constant message
  \<^verbatim>\<open>Tender data processed and sent to SQS queue.\<close>; the sent count of the dispatcher is
  in the last record of the log and not in the summary. The handler does return when the
  body is a dict whose \<^verbatim>\<open>result\<close> is a list of well-formed raw items, or is absent. When the
  fetch raises, the summary has status 502 and an error description, the log ends with
  the fetch error, and the queue is untouched: no item is normalised and nothing is sent.
\<close>

theorem run_summary:
  "(\<forall>lg q' r. lambda_handler U P (ReturnsJson api_response_dict) send q = (lg, q', Inr r) \<longrightarrow>
      r = success_response \<and>
      (\<exists>batches lg0. lg = lg0 @ [InfoComplete (fst (dispatch send q batches))] \<and>
         q' = snd (snd (dispatch send q batches)))) \<and>
   ((map_of d ''result'' = Some (JArr items) \<or> (map_of d ''result'' = None \<and> items = [])) \<and>
    (\<forall>item\<in>set items. well_formed_item item) \<longrightarrow>
      (\<exists>lg q'. lambda_handler U P (ReturnsJson (JObj d)) send q = (lg, q', Inr success_response))) \<and>
   statusCode success_response = 200 \<and>
   body success_response =
     BodyDict [(''message'', JStr (lit ''Tender data processed and sent to SQS queue.''))] \<and>
   lambda_handler U P RaisesRequestException send q =
     ([InfoStarting, InfoFetching, ErrorFetchFailed], q,
      Inr \<lparr>statusCode = 502,
            body = BodyText (JsonDumps
              (JObj [(''error'', JStr (lit ''Failed to fetch data from source API''))]))\<rparr>) \<and>
   lambda_handler U P RaisesJSONDecodeError send q =
     ([InfoStarting, InfoFetching, ErrorInvalidJson], q,
      Inr \<lparr>statusCode = 502,
            body = BodyText (JsonDumps
              (JObj [(''error'', JStr (lit ''Invalid JSON response from source API''))]))\<rparr>)"
proof -
  have a: "\<forall>lg q' r. lambda_handler U P (ReturnsJson api_response_dict) send q = (lg, q', Inr r) \<longrightarrow>
      r = success_response \<and>
      (\<exists>batches lg0. lg = lg0 @ [InfoComplete (fst (dispatch send q batches))] \<and>
         q' = snd (snd (dispatch send q batches)))"
  proof (intro allI impI)
    fix lg q' r
    assume "lambda_handler U P (ReturnsJson api_response_dict) send q = (lg, q', Inr r)"
    then show "r = success_response \<and>
      (\<exists>batches lg0. lg = lg0 @ [InfoComplete (fst (dispatch send q batches))] \<and>
         q' = snd (snd (dispatch send q batches)))"
      by (rule lambda_handler_returns)
  qed
  have b: "(map_of d ''result'' = Some (JArr items) \<or> (map_of d ''result'' = None \<and> items = [])) \<and>
    (\<forall>item\<in>set items. well_formed_item item) \<longrightarrow>
      (\<exists>lg q'. lambda_handler U P (ReturnsJson (JObj d)) send q = (lg, q', Inr success_response))"
  proof (intro impI, elim conjE)
    assume "map_of d ''result'' = Some (JArr items) \<or> (map_of d ''result'' = None \<and> items = [])"
      and "\<forall>item\<in>set items. well_formed_item item"
    then show "\<exists>lg q'. lambda_handler U P (ReturnsJson (JObj d)) send q = (lg, q', Inr success_response)"
      by (rule lambda_handler_well_formed)
  qed
  have c: "statusCode success_response = 200"
    "body success_response =
       BodyDict [(''message'', JStr (lit ''Tender data processed and sent to SQS queue.''))]"
    by (simp_all add: success_response_def)
  have e: "lambda_handler U P RaisesRequestException send q =
     ([InfoStarting, InfoFetching, ErrorFetchFailed], q,
      Inr \<lparr>statusCode = 502,
            body = BodyText (JsonDumps
              (JObj [(''error'', JStr (lit ''Failed to fetch data from source API''))]))\<rparr>)"
    "lambda_handler U P RaisesJSONDecodeError send q =
     ([InfoStarting, InfoFetching, ErrorInvalidJson], q,
      Inr \<lparr>statusCode = 502,
            body = BodyText (JsonDumps
              (JObj [(''error'', JStr (lit ''Invalid JSON response from source API''))]))\<rparr>)"
    by (simp_all add: lambda_handler_def error_response_def)
  show ?thesis
    apply (rule conjI, rule a)
    apply (rule conjI, rule b)
    apply (rule conjI, rule c(1))
    apply (rule conjI, rule c(2))
    apply (rule conjI, rule e(1))
    apply (rule e(2))
    done
qed

theorem run_summary_witness:
  "map_of [(''result'', JArr [JObj unit_test_item])] ''result'' = Some (JArr [JObj unit_test_item]) \<and>
   well_formed_item (JObj unit_test_item) \<and>
   (\<exists>lg q'. lambda_handler unicode_excerpt unit_test_strptime
        (ReturnsJson (JObj [(''result'', JArr [JObj unit_test_item])])) accept_all [] =
      (lg, q', Inr success_response)) \<and>
   lambda_handler unicode_excerpt unit_test_strptime RaisesRequestException accept_all [] =
     ([InfoStarting, InfoFetching, ErrorFetchFailed], [],
      Inr \<lparr>statusCode = 502,
            body = BodyText (JsonDumps
              (JObj [(''error'', JStr (lit ''Failed to fetch data from source API''))]))\<rparr>)"
proof -
  note rs = run_summary [where U = unicode_excerpt and P = unit_test_strptime and
      api_response_dict = JNull and send = accept_all and q = "[]" and
      d = "[(''result'', JArr [JObj unit_test_item])]" and items = "[JObj unit_test_item]"]
  have m: "map_of [(''result'', JArr [JObj unit_test_item])] ''result'' =
      Some (JArr [JObj unit_test_item])" by simp
  have w: "well_formed_item (JObj unit_test_item)"
    by (simp add: well_formed_item_def unit_test_item_ok)
  have h: "(map_of [(''result'', JArr [JObj unit_test_item])] ''result'' =
        Some (JArr [JObj unit_test_item]) \<or>
      (map_of [(''result'', JArr [JObj unit_test_item])] ''result'' = None \<and>
        [JObj unit_test_item] = [])) \<and>
     (\<forall>item\<in>set [JObj unit_test_item]. well_formed_item item)"
    using m w by simp
  have r: "\<exists>lg q'. lambda_handler unicode_excerpt unit_test_strptime
        (ReturnsJson (JObj [(''result'', JArr [JObj unit_test_item])])) accept_all [] =
      (lg, q', Inr success_response)"
    by (rule mp [OF rs [THEN conjunct2, THEN conjunct1] h])
  have f: "lambda_handler unicode_excerpt unit_test_strptime RaisesRequestException accept_all [] =
     ([InfoStarting, InfoFetching, ErrorFetchFailed], [],
      Inr \<lparr>statusCode = 502,
            body = BodyText (JsonDumps
              (JObj [(''error'', JStr (lit ''Failed to fetch data from source API''))]))\<rparr>)"
    by (rule rs [THEN conjunct2, THEN conjunct2, THEN conjunct2, THEN conjunct2, THEN conjunct1])
  show ?thesis
    apply (rule conjI, rule m)
    apply (rule conjI, rule w)
    apply (rule conjI, rule r)
    apply (rule f)
    done
qed

text \<open>
  A run that sends one message: the count 1 is in the log, the summary is the constant
  response, and its message holds no digit 1.
\<close>

theorem summary_message_has_no_count:
  "fst (lambda_handler unicode_excerpt unit_test_strptime
          (ReturnsJson (JObj [(''result'', JArr [JObj unit_test_item])])) accept_all []) =
     [InfoStarting, InfoFetching, InfoFetched 1, InfoProcessed 1, InfoBatchSent 1, InfoComplete 1] \<and>
   snd (snd (lambda_handler unicode_excerpt unit_test_strptime
          (ReturnsJson (JObj [(''result'', JArr [JObj unit_test_item])])) accept_all [])) =
     Inr \<lparr>statusCode = 200,
           body = BodyDict [(''message'', JStr (lit ''Tender data processed and sent to SQS queue.''))]\<rparr> \<and>
   str_nat 1 = lit ''1'' \<and>
   lit ''1'' = [49] \<and>
   49 \<notin> set (lit ''Tender data processed and sent to SQS queue.'')"
  by code_simp

end
